theory Spec2Isabelle
  imports Complex_Main "HOL-Library.Word"
begin

section \<open>JavaScript values\<close>

text \<open>
  The front end handles values that come out of \<open>JSON.parse\<close> and out of the REST
  responses. They are modelled by the JSON value type; \<open>undefined\<close> (a missing property,
  the result of \<open>?.\<close> on \<open>null\<close>) is \<open>None\<close> of \<open>json option\<close>. A number is the rational
  its double denotes: the code only ever tests a value for truthiness.
\<close>

datatype json =
    JNull
  | JBool bool
  | JNum rat
  | JStr string
  | JArr "json list"
  | JObj "(string \<times> json) list"

datatype js_error = TypeError | SyntaxError

text \<open>Truthiness, as \<open>x ? a : b\<close>, \<open>x && y\<close>, \<open>x || y\<close> and \<open>!x\<close> read it.\<close>

fun truthy :: "json \<Rightarrow> bool" where
  "truthy JNull = False"
| "truthy (JBool b) = b"
| "truthy (JNum n) = (n \<noteq> 0)"
| "truthy (JStr s) = (s \<noteq> [])"
| "truthy (JArr xs) = True"
| "truthy (JObj kvs) = True"

text \<open>
  Property reads. The properties the code reads from such values are \<open>role\<close>, \<open>users\<close>,
  \<open>orgs\<close>, \<open>username\<close>, \<open>org_id\<close>, \<open>detail\<close> and \<open>msg\<close>; none of them is inherited from a
  built-in prototype, so only an object's own entries answer. \<open>opt_prop x k\<close> is \<open>x?.k\<close>,
  \<open>get_prop x k\<close> is \<open>x.k\<close>, which raises on \<open>null\<close>.
\<close>

fun opt_prop :: "json option \<Rightarrow> string \<Rightarrow> json option" where
  "opt_prop (Some (JObj kvs)) k = map_of kvs k"
| "opt_prop x k = None"

fun get_prop :: "json \<Rightarrow> string \<Rightarrow> js_error + json option" where
  "get_prop JNull k = Inl TypeError"
| "get_prop x k = Inr (opt_prop (Some x) k)"

text \<open>\<open>v || []\<close> for a property value \<open>v\<close>.\<close>

fun or_empty_array :: "json option \<Rightarrow> json" where
  "or_empty_array None = JArr []"
| "or_empty_array (Some v) = (if truthy v then v else JArr [])"

section \<open>Text typed into a form\<close>

text \<open>
  What the user types is a sequence of UTF-16 code units. \<open>String.prototype.trim\<close> strips
  the white space and line terminator code points from both ends; all of them are single
  code units.
\<close>

type_synonym utf16 = "16 word list"

definition is_white_space :: "16 word \<Rightarrow> bool" where
  "is_white_space c \<longleftrightarrow>
     c \<in> set [0x0009, 0x000A, 0x000B, 0x000C, 0x000D, 0x0020, 0x00A0, 0x1680,
                0x2028, 0x2029, 0x202F, 0x205F, 0x3000, 0xFEFF]
     \<or> (0x2000 \<le> c \<and> c \<le> 0x200A)"

definition trim :: "utf16 \<Rightarrow> utf16" where
  "trim s = rev (dropWhile is_white_space (rev (dropWhile is_white_space s)))"

section \<open>api.js\<close>

text \<open>
  The requests the client can issue, and the outcome of one: the promise resolves with the
  response body, or rejects, and then \<open>err.response?.data\<close> is what the handlers look at.
\<close>

datatype api_call =
    Login utf16 utf16
  | ListOrgs
  | CreateOrg utf16 utf16
  | CreateUser "json option" utf16 utf16 string
  | ListUsers "json option"
  | DeleteUser "json option" string

datatype api_outcome = Resolved json | Rejected "json option"

text \<open>
  A handler's run: the state it leaves, the requests it issued, the callbacks of its parent
  it invoked, and the exception that escaped it, if any.
\<close>

datatype callback = OnSuccess | OnClose | OnUserDeleted

record 's handled =
  final :: 's
  requests :: "api_call list"
  notified :: "callback list"
  raised :: "js_error option"

text \<open>
  The browser state the session lives in: the \<open>user\<close> and \<open>loading\<close> state of \<open>App\<close>,
  \<open>localStorage\<close>, and \<open>axios.defaults.headers.common\<close>.
\<close>

record App =
  user :: json
  app_loading :: bool
  storage :: "string \<rightharpoonup> string"
  axios_common :: "string \<rightharpoonup> string"

definition setToken :: "string option \<Rightarrow> App \<Rightarrow> App" where
  "setToken token w =
     w\<lparr>axios_common := (axios_common w)(''Authorization'' \<mapsto>
          (case token of
             None \<Rightarrow> []
           | Some t \<Rightarrow> if t \<noteq> [] then ''Bearer '' @ t else []))\<rparr>"

text \<open>
  The headers of an outbound request: axios merges the common defaults with the headers
  the call passes itself. Only \<open>login\<close> passes any.
\<close>

fun own_headers :: "api_call \<Rightarrow> (string \<rightharpoonup> string)" where
  "own_headers (Login u p) = [''Content-Type'' \<mapsto> ''application/x-www-form-urlencoded'']"
| "own_headers c = Map.empty"

definition outbound_headers :: "App \<Rightarrow> api_call \<Rightarrow> (string \<rightharpoonup> string)" where
  "outbound_headers w c = axios_common w ++ own_headers c"

section \<open>App.jsx\<close>

definition getItem :: "App \<Rightarrow> string \<Rightarrow> string option" where
  "getItem w k = storage w k"

definition removeItem :: "string \<Rightarrow> App \<Rightarrow> App" where
  "removeItem k w = w\<lparr>storage := (storage w)(k := None)\<rparr>"

text \<open>A stored item is truthy when it is there and not the empty string.\<close>

fun present :: "string option \<Rightarrow> bool" where
  "present None = False"
| "present (Some s) = (s \<noteq> [])"

text \<open>The state \<open>App\<close> starts in, over what the browser has kept.\<close>

definition app_start :: "(string \<rightharpoonup> string) \<Rightarrow> App" where
  "app_start kept = \<lparr>user = JNull, app_loading = True, storage = kept, axios_common = Map.empty\<rparr>"

text \<open>
  The effect that runs once when \<open>App\<close> mounts. \<open>JSON.parse\<close> is the parameter \<open>parse\<close>;
  its exception is caught by the effect's own \<open>try\<close>.
\<close>

definition restore :: "(string \<Rightarrow> js_error + json) \<Rightarrow> App \<Rightarrow> App handled" where
  "restore parse w =
     (let storedUser = getItem w ''user'';
          storedToken = getItem w ''token''
      in \<lparr>final =
            (if present storedUser \<and> present storedToken then
               (case parse (the storedUser) of
                  Inr parsedUser \<Rightarrow>
                    (setToken storedToken (w\<lparr>user := parsedUser\<rparr>))\<lparr>app_loading := False\<rparr>
                | Inl err \<Rightarrow>
                    (removeItem ''token'' (removeItem ''user'' w))\<lparr>app_loading := False\<rparr>)
             else w\<lparr>app_loading := False\<rparr>),
          requests = [], notified = [], raised = None\<rparr>)"

text \<open>\<open>handleLoginSuccess\<close> parses outside any \<open>try\<close>: a parse error escapes.\<close>

definition handleLoginSuccess :: "(string \<Rightarrow> js_error + json) \<Rightarrow> App \<Rightarrow> App handled" where
  "handleLoginSuccess parse w =
     (let storedUser = getItem w ''user'';
          storedToken = getItem w ''token''
      in if present storedUser \<and> present storedToken then
           (case parse (the storedUser) of
              Inr u \<Rightarrow> \<lparr>final = setToken storedToken (w\<lparr>user := u\<rparr>),
                        requests = [], notified = [], raised = None\<rparr>
            | Inl err \<Rightarrow> \<lparr>final = w, requests = [], notified = [], raised = Some err\<rparr>)
         else \<lparr>final = w, requests = [], notified = [], raised = None\<rparr>)"

definition handleLogout :: "App \<Rightarrow> App" where
  "handleLogout w = setToken None (removeItem ''token'' (removeItem ''user'' (w\<lparr>user := JNull\<rparr>)))"

text \<open>
  The navigation bar's own handler clears the same things and then calls \<open>onLogout\<close>,
  which is \<open>handleLogout\<close>; its \<open>menuOpen\<close> flag is state of the bar alone.
\<close>

definition Navigation_handleLogout :: "App \<Rightarrow> App" where
  "Navigation_handleLogout w =
     handleLogout (setToken None (removeItem ''token'' (removeItem ''user'' w)))"

text \<open>\<open>App\<close> shows the login screen exactly when \<open>user\<close> is falsy.\<close>

definition logged_out :: "App \<Rightarrow> bool" where
  "logged_out w = (\<not> truthy (user w))"

text \<open>
  A stand-in for \<open>JSON.parse\<close> on the few texts the examples below store; on these it
  answers as \<open>JSON.parse\<close> does.
\<close>

definition JSON_parse_sample :: "string \<Rightarrow> js_error + json" where
  "JSON_parse_sample s =
     (if s = ''{}'' then Inr (JObj [])
      else if s = ''null'' then Inr JNull
      else if s = ''true'' then Inr (JBool True)
      else Inl SyntaxError)"

section \<open>The error line of a form\<close>

text \<open>
  What a component's \<open>error\<close> state holds: a message of the client's own, the \<open>detail\<close>
  of the server's answer as it came, or the \<open>msg\<close> fields of a list of validation errors,
  to be joined with \<open>', '\<close>.
\<close>

datatype error_view = Message string | Detail json | Joined "json option list"

text \<open>
  The \<open>catch\<close> block of both create forms, from \<open>errorData = err.response?.data\<close>. Reading
  \<open>e.msg\<close> of a \<open>null\<close> entry raises inside the handler.
\<close>

definition submit_error :: "json option \<Rightarrow> string \<Rightarrow> js_error + error_view" where
  "submit_error errorData fallback =
     (case opt_prop errorData ''detail'' of
        None \<Rightarrow> Inr (Message fallback)
      | Some (JArr es) \<Rightarrow>
          (if JNull \<in> set es then Inl TypeError
           else Inr (Joined (map (\<lambda>e. opt_prop (Some e) ''msg'') es)))
      | Some d \<Rightarrow> (if truthy d then Inr (Detail d) else Inr (Message fallback)))"

text \<open>\<open>err.response?.data?.detail || fallback\<close>, of the user table's handlers.\<close>

definition detail_or :: "json option \<Rightarrow> string \<Rightarrow> error_view" where
  "detail_or errorData fallback =
     (case opt_prop errorData ''detail'' of
        None \<Rightarrow> Message fallback
      | Some d \<Rightarrow> (if truthy d then Detail d else Message fallback))"

section \<open>CreateOrgModal\<close>

record CreateOrgModal =
  orgId :: utf16
  orgName :: utf16
  org_error :: error_view
  org_loading :: bool

text \<open>
  \<open>handleSubmit\<close>, run to its end; \<open>outcome\<close> is how the \<open>createOrg\<close> request ends if it
  is issued. The \<open>finally\<close> block clears \<open>loading\<close> on every path.
\<close>

definition CreateOrgModal_handleSubmit ::
  "api_outcome \<Rightarrow> CreateOrgModal \<Rightarrow> CreateOrgModal handled" where
  "CreateOrgModal_handleSubmit outcome f =
     (let f1 = f\<lparr>org_error := Message [], org_loading := True\<rparr> in
      if trim (orgId f1) = [] \<or> trim (orgName f1) = [] then
        \<lparr>final = f1\<lparr>org_error := Message ''Organization ID and Name are required'',
                      org_loading := False\<rparr>,
         requests = [], notified = [], raised = None\<rparr>
      else
        (case outcome of
           Resolved d \<Rightarrow>
             \<lparr>final = f1\<lparr>orgId := [], orgName := [], org_loading := False\<rparr>,
              requests = [CreateOrg (orgId f1) (orgName f1)],
              notified = [OnSuccess, OnClose], raised = None\<rparr>
         | Rejected errorData \<Rightarrow>
             (case submit_error errorData ''Failed to create organization'' of
                Inr ev \<Rightarrow>
                  \<lparr>final = f1\<lparr>org_error := ev, org_loading := False\<rparr>,
                   requests = [CreateOrg (orgId f1) (orgName f1)],
                   notified = [], raised = None\<rparr>
              | Inl e \<Rightarrow>
                  \<lparr>final = f1\<lparr>org_loading := False\<rparr>,
                   requests = [CreateOrg (orgId f1) (orgName f1)],
                   notified = [], raised = Some e\<rparr>)))"

section \<open>CreateUserModal\<close>

text \<open>
  The options of the role selector, as (value, label) pairs, from \<open>currentUserRole\<close>, which
  \<open>Dashboard\<close> passes as \<open>user?.role\<close>.
\<close>

definition getAvailableRoles :: "json option \<Rightarrow> (string \<times> string) list" where
  "getAvailableRoles currentUserRole =
     (if currentUserRole = Some (JStr ''admin'') then
        [(''viewer'', ''Viewer''), (''editor'', ''Editor''), (''admin'', ''Admin'')]
      else if currentUserRole = Some (JStr ''editor'') then
        [(''viewer'', ''Viewer''), (''editor'', ''Editor'')]
      else [(''viewer'', ''Viewer'')])"

record CreateUserModal =
  username :: utf16
  password :: utf16
  role :: string
  cu_error :: error_view
  cu_loading :: bool

definition CreateUserModal_handleSubmit ::
  "json option \<Rightarrow> api_outcome \<Rightarrow> CreateUserModal \<Rightarrow> CreateUserModal handled" where
  "CreateUserModal_handleSubmit org outcome f =
     (let f1 = f\<lparr>cu_error := Message [], cu_loading := True\<rparr> in
      if trim (username f1) = [] \<or> trim (password f1) = [] then
        \<lparr>final = f1\<lparr>cu_error := Message ''Username and Password are required'',
                      cu_loading := False\<rparr>,
         requests = [], notified = [], raised = None\<rparr>
      else
        (case outcome of
           Resolved d \<Rightarrow>
             \<lparr>final = f1\<lparr>username := [], password := [], role := ''viewer'',
                           cu_loading := False\<rparr>,
              requests = [CreateUser org (username f1) (password f1) (role f1)],
              notified = [OnSuccess, OnClose], raised = None\<rparr>
         | Rejected errorData \<Rightarrow>
             (case submit_error errorData ''Failed to create user'' of
                Inr ev \<Rightarrow>
                  \<lparr>final = f1\<lparr>cu_error := ev, cu_loading := False\<rparr>,
                   requests = [CreateUser org (username f1) (password f1) (role f1)],
                   notified = [], raised = None\<rparr>
              | Inl e \<Rightarrow>
                  \<lparr>final = f1\<lparr>cu_loading := False\<rparr>,
                   requests = [CreateUser org (username f1) (password f1) (role f1)],
                   notified = [], raised = Some e\<rparr>)))"

section \<open>UserManagementModal\<close>

record UserManagementModal =
  users :: json
  um_loading :: bool
  um_error :: error_view
  deleting :: "string option"

definition UserManagementModal_init :: UserManagementModal where
  "UserManagementModal_init =
     \<lparr>users = JArr [], um_loading = True, um_error = Message [], deleting = None\<rparr>"

text \<open>
  \<open>fetchUsers\<close> in its two halves: up to the \<open>await\<close>, and from the answer on. Reading
  \<open>data.users\<close> of a \<open>null\<close> body raises inside the \<open>try\<close>; the exception has no
  \<open>response\<close>, so the \<open>catch\<close> block shows its fallback message.
\<close>

definition fetchUsers_begin :: "UserManagementModal \<Rightarrow> UserManagementModal" where
  "fetchUsers_begin m = m\<lparr>um_loading := True, um_error := Message []\<rparr>"

definition fetchUsers_settle :: "api_outcome \<Rightarrow> UserManagementModal \<Rightarrow> UserManagementModal" where
  "fetchUsers_settle outcome m =
     (case outcome of
        Resolved data \<Rightarrow>
          (case get_prop data ''users'' of
             Inr v \<Rightarrow> m\<lparr>users := or_empty_array v, um_loading := False\<rparr>
           | Inl e \<Rightarrow> m\<lparr>um_error := Message ''Failed to load users'', um_loading := False\<rparr>)
      | Rejected errorData \<Rightarrow>
          m\<lparr>um_error := detail_or errorData ''Failed to load users'', um_loading := False\<rparr>)"


text \<open>
  \<open>users.filter(u => u.username !== username)\<close> for a string \<open>username\<close>: it raises when
  \<open>users\<close> is no array, or when an entry is \<open>null\<close>.
\<close>

definition username_of :: "json \<Rightarrow> json option" where
  "username_of u = opt_prop (Some u) ''username''"

definition users_without :: "json \<Rightarrow> string \<Rightarrow> js_error + json" where
  "users_without us name =
     (case us of
        JArr xs \<Rightarrow>
          (if JNull \<in> set xs then Inl TypeError
           else Inr (JArr (filter (\<lambda>u. username_of u \<noteq> Some (JStr name)) xs)))
      | _ \<Rightarrow> Inl TypeError)"

text \<open>
  \<open>handleDeleteUser\<close> in its two halves. Up to the \<open>await\<close> it asks for confirmation and
  marks the row. From the answer on it works on \<open>captured\<close>, the \<open>users\<close> array of the
  render whose button was pressed (the closure's \<open>users\<close>), and writes into the state of
  that later moment. The \<open>finally\<close> block resets \<open>deleting\<close>.
\<close>

definition handleDeleteUser_begin :: "string \<Rightarrow> UserManagementModal \<Rightarrow> UserManagementModal" where
  "handleDeleteUser_begin name m = m\<lparr>deleting := Some name\<rparr>"

definition handleDeleteUser_settle ::
  "json \<Rightarrow> json option \<Rightarrow> string \<Rightarrow> api_outcome \<Rightarrow> UserManagementModal
     \<Rightarrow> UserManagementModal handled" where
  "handleDeleteUser_settle captured org name outcome m =
     (case outcome of
        Resolved d \<Rightarrow>
          (case users_without captured name of
             Inr us \<Rightarrow>
               \<lparr>final = m\<lparr>users := us, deleting := None\<rparr>,
                requests = [DeleteUser org name], notified = [OnUserDeleted], raised = None\<rparr>
           | Inl e \<Rightarrow>
               \<lparr>final = m\<lparr>um_error := Message ''Failed to delete user'', deleting := None\<rparr>,
                requests = [DeleteUser org name], notified = [], raised = None\<rparr>)
      | Rejected errorData \<Rightarrow>
          \<lparr>final = m\<lparr>um_error := detail_or errorData ''Failed to delete user'',
                       deleting := None\<rparr>,
           requests = [DeleteUser org name], notified = [], raised = None\<rparr>)"

text \<open>
  The handler run to its end with nothing else happening in between; \<open>confirmed\<close> is the
  answer to \<open>window.confirm\<close>, \<open>outcome\<close> how the \<open>deleteUser\<close> request ends. This is
  the handler's own effect on the modal's state. The call of \<open>onUserDeleted\<close> is recorded
  in \<open>notified\<close>; what it does in \<open>Dashboard\<close>, and answers that come while another
  deletion is in flight, are part of the page further down.
\<close>

definition handleDeleteUser ::
  "json option \<Rightarrow> string \<Rightarrow> bool \<Rightarrow> api_outcome \<Rightarrow> UserManagementModal
     \<Rightarrow> UserManagementModal handled" where
  "handleDeleteUser org name confirmed outcome m =
     (if \<not> confirmed then \<lparr>final = m, requests = [], notified = [], raised = None\<rparr>
      else handleDeleteUser_settle (users m) org name outcome (handleDeleteUser_begin name m))"

section \<open>Dashboard\<close>

record Dashboard =
  orgs :: json
  db_loading :: bool
  db_error :: string
  showCreateOrgModal :: bool
  showCreateUserModal :: bool
  showUserManagementModal :: bool
  selectedOrgId :: "json option"

definition Dashboard_init :: Dashboard where
  "Dashboard_init =
     \<lparr>orgs = JArr [], db_loading = True, db_error = [],
      showCreateOrgModal = False, showCreateUserModal = False,
      showUserManagementModal = False, selectedOrgId = Some (JStr [])\<rparr>"

definition isAdmin :: "json \<Rightarrow> bool" where
  "isAdmin u = (opt_prop (Some u) ''role'' = Some (JStr ''admin''))"

definition isEditor :: "json \<Rightarrow> bool" where
  "isEditor u = (opt_prop (Some u) ''role'' = Some (JStr ''editor''))"

text \<open>
  \<open>fetchOrgs\<close> in its two halves: up to the \<open>await\<close>, and from the answer on. Its \<open>catch\<close>
  block shows a fixed message, also when reading \<open>data.orgs\<close> of a \<open>null\<close> body raised.
\<close>

definition fetchOrgs_begin :: "Dashboard \<Rightarrow> Dashboard" where
  "fetchOrgs_begin d = d\<lparr>db_loading := True\<rparr>"

definition fetchOrgs_settle :: "api_outcome \<Rightarrow> Dashboard \<Rightarrow> Dashboard" where
  "fetchOrgs_settle outcome d =
     (case outcome of
        Resolved data \<Rightarrow>
          (case get_prop data ''orgs'' of
             Inr v \<Rightarrow> d\<lparr>orgs := or_empty_array v, db_loading := False\<rparr>
           | Inl e \<Rightarrow> d\<lparr>db_error := ''Failed to load organizations'', db_loading := False\<rparr>)
      | Rejected errorData \<Rightarrow>
          d\<lparr>db_error := ''Failed to load organizations'', db_loading := False\<rparr>)"


definition handleCreateOrgSuccess :: "Dashboard \<Rightarrow> Dashboard" where
  "handleCreateOrgSuccess d = (fetchOrgs_begin d)\<lparr>showCreateOrgModal := False\<rparr>"

definition handleCreateUserClick :: "json option \<Rightarrow> Dashboard \<Rightarrow> Dashboard" where
  "handleCreateUserClick org d = d\<lparr>selectedOrgId := org, showCreateUserModal := True\<rparr>"

definition handleCreateUserSuccess :: "Dashboard \<Rightarrow> Dashboard" where
  "handleCreateUserSuccess d = (fetchOrgs_begin d)\<lparr>showCreateUserModal := False\<rparr>"

definition handleUserManagementClick :: "json option \<Rightarrow> Dashboard \<Rightarrow> Dashboard" where
  "handleUserManagementClick org d = d\<lparr>selectedOrgId := org, showUserManagementModal := True\<rparr>"

text \<open>
  The buttons the returned JSX holds: \<open>+ Create Organization\<close>, and per organization
  \<open>+ User\<close> and \<open>Users\<close>, each with the \<open>org.org_id\<close> it passes on. While \<open>loading\<close> the
  component returns the loading line alone. The list is an upper bound of what is on
  screen: a render that raises (an entry of \<open>orgs\<close> that is \<open>null\<close>) shows nothing, and
  an \<open>orgs\<close> that is no array has no rows.
\<close>

datatype control = CreateOrganization | AddUser "json option" | ManageUsers "json option"

definition org_controls :: "json \<Rightarrow> json \<Rightarrow> control list" where
  "org_controls u org =
     (if isAdmin u \<or> isEditor u then
        [AddUser (opt_prop (Some org) ''org_id''), ManageUsers (opt_prop (Some org) ''org_id'')]
      else [])"

definition controls :: "json \<Rightarrow> Dashboard \<Rightarrow> control list" where
  "controls u d =
     (if db_loading d then []
      else (if isAdmin u then [CreateOrganization] else []) @
           (case orgs d of
              JArr xs \<Rightarrow> concat (map (org_controls u) xs)
            | _ \<Rightarrow> []))"

text \<open>
  What can happen to a mounted \<open>Dashboard\<close>: a click on a button that is there, the
  \<open>onClose\<close>, \<open>onSuccess\<close> and \<open>onUserDeleted\<close> callbacks of the three modals, and the
  answer to a pending \<open>listOrgs\<close>. A click on a button that is not rendered is no step.
  Each modal is on screen only while its \<open>isOpen\<close> flag is set.
\<close>

datatype dashboard_event =
    Click control
  | CloseCreateOrg
  | CloseCreateUser
  | CloseUserManagement
  | CreateOrgSucceeded
  | CreateUserSucceeded
  | UserDeleted
  | OrgsAnswered api_outcome

fun press :: "control \<Rightarrow> Dashboard \<Rightarrow> Dashboard" where
  "press CreateOrganization d = d\<lparr>showCreateOrgModal := True\<rparr>"
| "press (AddUser org) d = handleCreateUserClick org d"
| "press (ManageUsers org) d = handleUserManagementClick org d"

fun dashboard_step :: "json \<Rightarrow> Dashboard \<Rightarrow> dashboard_event \<Rightarrow> Dashboard option" where
  "dashboard_step u d (Click c) = (if c \<in> set (controls u d) then Some (press c d) else None)"
| "dashboard_step u d CloseCreateOrg = Some (d\<lparr>showCreateOrgModal := False\<rparr>)"
| "dashboard_step u d CloseCreateUser = Some (d\<lparr>showCreateUserModal := False\<rparr>)"
| "dashboard_step u d CloseUserManagement = Some (d\<lparr>showUserManagementModal := False\<rparr>)"
| "dashboard_step u d CreateOrgSucceeded = Some (handleCreateOrgSuccess d)"
| "dashboard_step u d CreateUserSucceeded = Some (handleCreateUserSuccess d)"
| "dashboard_step u d UserDeleted = Some (fetchOrgs_begin d)"
| "dashboard_step u d (OrgsAnswered outcome) = Some (fetchOrgs_settle outcome d)"

fun dashboard_run :: "json \<Rightarrow> Dashboard \<Rightarrow> dashboard_event list \<Rightarrow> Dashboard option" where
  "dashboard_run u d [] = Some d"
| "dashboard_run u d (e # es) =
     (case dashboard_step u d e of None \<Rightarrow> None | Some d' \<Rightarrow> dashboard_run u d' es)"

text \<open>The mount effect calls \<open>fetchOrgs\<close>; the state after it is the initial one.\<close>

definition Dashboard_mounted :: Dashboard where
  "Dashboard_mounted = fetchOrgs_begin Dashboard_init"

section \<open>Dashboard and its user table together\<close>

text \<open>
  \<open>Dashboard\<close> renders \<open>UserManagementModal\<close> with \<open>isOpen = showUserManagementModal\<close>,
  \<open>orgId = selectedOrgId\<close> and \<open>onUserDeleted = () => fetchOrgs()\<close>, below its early
  \<open>if (loading) return\<close>. So while \<open>loading\<close> is set the modal is not in the tree: it is
  unmounted and its state is gone; when \<open>loading\<close> is cleared it is mounted afresh, in its
  initial state. A page is the dashboard's state, the mounted instance of the modal with
  its number, the count of instances so far, and the requests in flight. A request carries
  what its closure holds: the instance whose state it will write, and for a deletion the
  \<open>users\<close> array, the \<open>orgId\<close> and the username of the render whose button was pressed.
\<close>

datatype request =
    ReqOrgs
  | ReqUsers nat "json option"
  | ReqDelete nat json "json option" string

record Page =
  dash :: Dashboard
  modal :: "(nat \<times> UserManagementModal) option"
  mounts :: nat
  pending :: "request list"

text \<open>\<open>Dashboard\<close> has just mounted: its effect has called \<open>fetchOrgs\<close>.\<close>

definition Page_start :: Page where
  "Page_start = \<lparr>dash = Dashboard_mounted, modal = None, mounts = 0, pending = [ReqOrgs]\<rparr>"

fun truthy_opt :: "json option \<Rightarrow> bool" where
  "truthy_opt None = False"
| "truthy_opt (Some v) = truthy v"

text \<open>
  The modal's effect, \<open>if (isOpen && orgId) fetchUsers()\<close>. It runs when the modal mounts
  and when \<open>isOpen\<close> or \<open>orgId\<close> changes.
\<close>

definition users_effect :: "Page \<Rightarrow> Page" where
  "users_effect p =
     (case modal p of
        None \<Rightarrow> p
      | Some (g, m) \<Rightarrow>
          if showUserManagementModal (dash p) \<and> truthy_opt (selectedOrgId (dash p)) then
            p\<lparr>modal := Some (g, fetchUsers_begin m),
              pending := pending p @ [ReqUsers g (selectedOrgId (dash p))]\<rparr>
          else p)"

text \<open>What a change of the dashboard's \<open>loading\<close> does to the modal.\<close>

definition rerender :: "Page \<Rightarrow> Page" where
  "rerender p =
     (if db_loading (dash p) then p\<lparr>modal := None\<rparr>
      else
        (case modal p of
           Some x \<Rightarrow> p
         | None \<Rightarrow>
             users_effect
               (p\<lparr>modal := Some (mounts p, UserManagementModal_init), mounts := Suc (mounts p)\<rparr>)))"

text \<open>
  The rows of the user table on screen, if a table is on screen: the modal is mounted and
  open, it is not loading, and \<open>users\<close> is an array the table can render.
\<close>

definition displayed_users :: "Page \<Rightarrow> json list option" where
  "displayed_users p =
     (case modal p of
        None \<Rightarrow> None
      | Some (g, m) \<Rightarrow>
          if showUserManagementModal (dash p) \<and> \<not> um_loading m then
            (case users m of
               JArr xs \<Rightarrow> if JNull \<in> set xs then None else Some xs
             | _ \<Rightarrow> None)
          else None)"

text \<open>A state update reaches the instance it was made for, and no other.\<close>

definition on_instance ::
  "nat \<Rightarrow> (UserManagementModal \<Rightarrow> UserManagementModal) \<Rightarrow> Page \<Rightarrow> Page" where
  "on_instance g f p =
     (case modal p of
        None \<Rightarrow> p
      | Some (g', m) \<Rightarrow> if g' = g then p\<lparr>modal := Some (g', f m)\<rparr> else p)"

text \<open>
  The answer to a request in flight. After a deletion the handler calls \<open>onUserDeleted\<close>
  whether its instance is still mounted or not, and that is \<open>fetchOrgs\<close>: it sets the
  dashboard's \<open>loading\<close> and issues \<open>listOrgs\<close>.
\<close>

fun answer :: "request \<Rightarrow> api_outcome \<Rightarrow> Page \<Rightarrow> Page" where
  "answer ReqOrgs outcome p = rerender (p\<lparr>dash := fetchOrgs_settle outcome (dash p)\<rparr>)"
| "answer (ReqUsers g org) outcome p = on_instance g (fetchUsers_settle outcome) p"
| "answer (ReqDelete g captured org name) outcome p =
     (let p1 = on_instance g (\<lambda>m. final (handleDeleteUser_settle captured org name outcome m)) p
      in if OnUserDeleted \<in> set (notified
              (handleDeleteUser_settle captured org name outcome UserManagementModal_init))
         then rerender (p1\<lparr>dash := fetchOrgs_begin (dash p1), pending := pending p1 @ [ReqOrgs]\<rparr>)
         else p1)"

text \<open>
  What can happen to the page: a click on a dashboard button that is there, closing the
  user table, a click on the \<open>Delete\<close> button of a row on screen (not the row being
  deleted, whose button is disabled) with the answer to the confirmation prompt, and the
  answer to the \<open>i\<close>-th request in flight.
\<close>

datatype page_event =
    Press control
  | CloseUsers
  | PressDelete string bool
  | Answered nat api_outcome

definition press_delete :: "string \<Rightarrow> bool \<Rightarrow> Page \<Rightarrow> Page option" where
  "press_delete name confirmed p =
     (case (modal p, displayed_users p) of
        (Some (g, m), Some xs) \<Rightarrow>
          if Some (JStr name) \<in> set (map username_of xs) \<and> deleting m \<noteq> Some name then
            (if confirmed then
               Some (p\<lparr>modal := Some (g, handleDeleteUser_begin name m),
                       pending := pending p @ [ReqDelete g (users m) (selectedOrgId (dash p)) name]\<rparr>)
             else Some p)
          else None
      | _ \<Rightarrow> None)"

fun page_step :: "json \<Rightarrow> Page \<Rightarrow> page_event \<Rightarrow> Page option" where
  "page_step u p (Press c) =
     (if c \<in> set (controls u (dash p)) then
        (let d = press c (dash p);
             p1 = p\<lparr>dash := d\<rparr>
         in if (showUserManagementModal d, selectedOrgId d)
                 = (showUserManagementModal (dash p), selectedOrgId (dash p))
            then Some p1 else Some (users_effect p1))
      else None)"
| "page_step u p CloseUsers = Some (p\<lparr>dash := (dash p)\<lparr>showUserManagementModal := False\<rparr>\<rparr>)"
| "page_step u p (PressDelete name confirmed) = press_delete name confirmed p"
| "page_step u p (Answered i outcome) =
     (if i < length (pending p) then
        Some (answer (pending p ! i) outcome
                (p\<lparr>pending := take i (pending p) @ drop (Suc i) (pending p)\<rparr>))
      else None)"

fun page_run :: "json \<Rightarrow> Page \<Rightarrow> page_event list \<Rightarrow> Page option" where
  "page_run u p [] = Some p"
| "page_run u p (e # es) =
     (case page_step u p e of None \<Rightarrow> None | Some p' \<Rightarrow> page_run u p' es)"

section \<open>Predicates the properties are stated with\<close>

text \<open>
  The persisted session cannot be used: the \<open>user\<close> item is missing or empty, or the
  \<open>token\<close> item is, or the \<open>user\<close> item does not parse.
\<close>

definition no_usable_session :: "(string \<Rightarrow> js_error + json) \<Rightarrow> App \<Rightarrow> bool" where
  "no_usable_session parse w =
     (case getItem w ''user'' of
        None \<Rightarrow> True
      | Some s \<Rightarrow> s = [] \<or> \<not> present (getItem w ''token'') \<or> isl (parse s))"

text \<open>A form field that is empty or holds white space only.\<close>

definition blank :: "utf16 \<Rightarrow> bool" where
  "blank s = list_all is_white_space s"

text \<open>A row of the user table that belongs to somebody else than \<open>name\<close>.\<close>

definition other_user :: "string \<Rightarrow> json \<Rightarrow> bool" where
  "other_user name u = (username_of u \<noteq> Some (JStr name))"

text \<open>
  The gating invariant of \<open>Dashboard\<close>: the create-organization modal is open for an admin
  only, the two user modals for an admin or an editor only.
\<close>

definition modals_gated :: "json \<Rightarrow> Dashboard \<Rightarrow> bool" where
  "modals_gated u d =
     ((isAdmin u \<or> \<not> showCreateOrgModal d) \<and>
      (isAdmin u \<or> isEditor u \<or> (\<not> showCreateUserModal d \<and> \<not> showUserManagementModal d)))"

section \<open>Sample data\<close>

definition sample_user :: "string \<Rightarrow> json" where
  "sample_user r = JObj [(''username'', JStr ''alice''), (''role'', JStr r)]"

definition sample_orgs :: json where
  "sample_orgs =
     JObj [(''orgs'', JArr [JObj [(''org_id'', JStr ''acme''), (''name'', JStr ''ACME'')]])]"

definition sample_org_form :: CreateOrgModal where
  "sample_org_form =
     \<lparr>orgId = [0x20, 0x2003, 0x09], orgName = [0x41, 0x43, 0x4D, 0x45],
      org_error = Message [], org_loading = False\<rparr>"

definition sample_user_form :: CreateUserModal where
  "sample_user_form =
     \<lparr>username = [0x62, 0x6F, 0x62], password = [0x70, 0x77],
      role = ''editor'', cu_error = Message [], cu_loading = False\<rparr>"

definition sample_row :: "string \<Rightarrow> string \<Rightarrow> json" where
  "sample_row n r = JObj [(''username'', JStr n), (''role'', JStr r)]"

definition sample_table :: UserManagementModal where
  "sample_table =
     \<lparr>users = JArr [sample_row ''alice'' ''admin'', sample_row ''bob'' ''viewer'',
                    sample_row ''carol'' ''editor''],
      um_loading = False, um_error = Message [], deleting = None\<rparr>"

definition sample_users :: json where
  "sample_users = JObj [(''users'', users sample_table)]"

text \<open>
  An admin's session: the organizations load, the admin opens the user table of acme and
  it loads; then the admin deletes bob, confirms, and the server accepts.
\<close>

definition open_table :: "page_event list" where
  "open_table =
     [Answered 0 (Resolved sample_orgs),
      Press (ManageUsers (Some (JStr ''acme''))),
      Answered 0 (Resolved sample_users)]"

definition delete_bob :: "page_event list" where
  "delete_bob = open_table @ [PressDelete ''bob'' True, Answered 0 (Resolved JNull)]"

section \<open>Restoring the session\<close>

lemma restore_no_session:
  assumes "no_usable_session parse w"
  shows "final (restore parse w) =
           (if present (getItem w ''user'') \<and> present (getItem w ''token'')
            then (removeItem ''token'' (removeItem ''user'' w))\<lparr>app_loading := False\<rparr>
            else w\<lparr>app_loading := False\<rparr>)"
  using assms
  by (auto simp: restore_def no_usable_session_def Let_def split: option.splits sum.splits)

lemma restore_never_raises: "raised (restore parse w) = None"
  by (simp add: restore_def Let_def)

text \<open>
  C1, as the code has it. At application start (no user in memory), for every persisted
  state that is missing, partial or unparseable, \<open>restore\<close> leaves the application logged
  out, raises nothing and leaves the request headers alone. Storage is cleared of both
  items when both were there and the user item did not parse; when an item is missing,
  storage is left as it was.
\<close>

theorem restore_without_session:
  "user w = JNull \<Longrightarrow> no_usable_session parse w \<Longrightarrow>
     logged_out (final (restore parse w)) \<and>
     raised (restore parse w) = None \<and>
     axios_common (final (restore parse w)) = axios_common w \<and>
     storage (final (restore parse w)) =
       (if present (getItem w ''user'') \<and> present (getItem w ''token'')
        then (storage w)(''user'' := None, ''token'' := None)
        else storage w)"
  by (simp add: restore_no_session restore_never_raises logged_out_def removeItem_def)

text \<open>
  The theorem at a stored user that does not parse: logged out, both items removed.
\<close>

theorem restore_without_session_witness:
  "logged_out (final (restore JSON_parse_sample
      (app_start [''user'' \<mapsto> ''{bad'', ''token'' \<mapsto> ''T'']))) \<and>
   storage (final (restore JSON_parse_sample
      (app_start [''user'' \<mapsto> ''{bad'', ''token'' \<mapsto> ''T'']))) ''user'' = None \<and>
   storage (final (restore JSON_parse_sample
      (app_start [''user'' \<mapsto> ''{bad'', ''token'' \<mapsto> ''T'']))) ''token'' = None"
  using restore_without_session
    [of "app_start [''user'' \<mapsto> ''{bad'', ''token'' \<mapsto> ''T'']" JSON_parse_sample]
  by (simp add: no_usable_session_def app_start_def getItem_def JSON_parse_sample_def)

text \<open>
  C1 as stated fails on a partial state: with a token stored and no user, \<open>restore\<close>
  takes the \<open>else\<close> path of its guard and the token stays in storage.
\<close>

theorem restore_keeps_partial_state:
  "storage (final (restore JSON_parse_sample (app_start [''token'' \<mapsto> ''T'']))) ''token''
     = Some ''T''"
  by (simp add: restore_def app_start_def getItem_def)

section \<open>Roles offered for a new user\<close>

text \<open>
  C2, as the code has it. The roles offered are viewer, editor and admin to an admin,
  viewer and editor to an editor, and viewer alone to everybody else, a viewer included.
\<close>

theorem getAvailableRoles_by_role:
  "map fst (getAvailableRoles r) =
     (if r = Some (JStr ''admin'') then [''viewer'', ''editor'', ''admin'']
      else if r = Some (JStr ''editor'') then [''viewer'', ''editor'']
      else [''viewer''])"
  by (simp add: getAvailableRoles_def)

text \<open>The theorem at the three roles.\<close>

theorem getAvailableRoles_by_role_witness:
  "map fst (getAvailableRoles (Some (JStr ''viewer''))) = [''viewer''] \<and>
   map fst (getAvailableRoles (Some (JStr ''editor''))) = [''viewer'', ''editor''] \<and>
   map fst (getAvailableRoles (Some (JStr ''admin''))) = [''viewer'', ''editor'', ''admin'']"
  using getAvailableRoles_by_role [of "Some (JStr ''viewer'')"]
    getAvailableRoles_by_role [of "Some (JStr ''editor'')"]
    getAvailableRoles_by_role [of "Some (JStr ''admin'')"]
  by simp

text \<open>C2 as stated fails for a viewer: the set offered is not empty.\<close>

theorem getAvailableRoles_viewer_not_empty:
  "set (map fst (getAvailableRoles (Some (JStr ''viewer'')))) \<noteq> {}"
  by (simp add: getAvailableRoles_def)

section \<open>Role gating in the dashboard\<close>

lemma controls_not_admin: "\<not> isAdmin u \<Longrightarrow> CreateOrganization \<notin> set (controls u d)"
  by (auto simp: controls_def org_controls_def split: json.splits)

lemma controls_viewer: "\<not> isAdmin u \<Longrightarrow> \<not> isEditor u \<Longrightarrow> controls u d = []"
  by (auto simp: controls_def org_controls_def split: json.splits)

lemma step_keeps_gated:
  "modals_gated u d \<Longrightarrow> dashboard_step u d e = Some d' \<Longrightarrow> modals_gated u d'"
proof (cases e)
  case (Click c)
  assume inv: "modals_gated u d" and st: "dashboard_step u d e = Some d'"
  from st Click have shown: "c \<in> set (controls u d)" and d': "d' = press c d"
    by (auto split: if_splits)
  show ?thesis
  proof (cases c)
    case CreateOrganization
    with shown have "isAdmin u" using controls_not_admin by blast
    with inv d' CreateOrganization show ?thesis by (simp add: modals_gated_def)
  next
    case (AddUser org)
    with shown have "isAdmin u \<or> isEditor u" using controls_viewer by fastforce
    with inv d' AddUser show ?thesis
      by (auto simp: modals_gated_def handleCreateUserClick_def)
  next
    case (ManageUsers org)
    with shown have "isAdmin u \<or> isEditor u" using controls_viewer by fastforce
    with inv d' ManageUsers show ?thesis
      by (auto simp: modals_gated_def handleUserManagementClick_def)
  qed
next
  case (OrgsAnswered outcome)
  assume "modals_gated u d" "dashboard_step u d e = Some d'"
  with OrgsAnswered show ?thesis
    by (auto simp: modals_gated_def fetchOrgs_settle_def split: api_outcome.splits sum.splits)
qed (auto simp: modals_gated_def handleCreateOrgSuccess_def handleCreateUserSuccess_def
       fetchOrgs_begin_def)

lemma run_keeps_gated:
  "modals_gated u d \<Longrightarrow> dashboard_run u d es = Some d' \<Longrightarrow> modals_gated u d'"
proof (induction es arbitrary: d)
  case Nil
  then show ?case by simp
next
  case (Cons e es)
  then obtain d1 where s: "dashboard_step u d e = Some d1" and r: "dashboard_run u d1 es = Some d'"
    by (auto split: option.splits)
  from Cons.prems(1) s have "modals_gated u d1" by (rule step_keeps_gated)
  with r show ?case by (rule Cons.IH [rotated])
qed

lemma mounted_gated: "modals_gated u Dashboard_mounted"
  by (simp add: modals_gated_def Dashboard_mounted_def Dashboard_init_def fetchOrgs_begin_def)

text \<open>The gates do open for the roles they are meant for, and a hidden button is no step.\<close>

lemma admin_reaches_create_org:
  "map_option showCreateOrgModal
     (dashboard_run (sample_user ''admin'') Dashboard_mounted
        [OrgsAnswered (Resolved sample_orgs), Click CreateOrganization]) = Some True"
  by (simp add: Dashboard_mounted_def Dashboard_init_def fetchOrgs_begin_def fetchOrgs_settle_def
        sample_orgs_def sample_user_def controls_def isAdmin_def org_controls_def)

lemma editor_reaches_user_table:
  "map_option showUserManagementModal
     (dashboard_run (sample_user ''editor'') Dashboard_mounted
        [OrgsAnswered (Resolved sample_orgs), Click (ManageUsers (Some (JStr ''acme'')))])
     = Some True"
  by (simp add: Dashboard_mounted_def Dashboard_init_def fetchOrgs_begin_def fetchOrgs_settle_def
        sample_orgs_def sample_user_def controls_def isAdmin_def isEditor_def org_controls_def
        handleUserManagementClick_def)

lemma viewer_click_is_no_step:
  "dashboard_run (sample_user ''viewer'') Dashboard_mounted
        [OrgsAnswered (Resolved sample_orgs), Click (ManageUsers (Some (JStr ''acme'')))] = None"
  by (simp add: Dashboard_mounted_def Dashboard_init_def fetchOrgs_begin_def fetchOrgs_settle_def
        sample_orgs_def sample_user_def controls_def isAdmin_def isEditor_def org_controls_def)

text \<open>
  C3. In every state a mounted \<open>Dashboard\<close> can get into, for a user whose role is not
  admin the organization-creation capability is denied (\<open>isAdmin\<close> is false), the
  create-organization button is not rendered and its modal is closed; for a user whose
  role is viewer, neither the create-user button nor the button of the user table (which
  holds the delete buttons) is rendered for any organization, and both modals are closed.
\<close>

theorem dashboard_gating:
  assumes "dashboard_run u Dashboard_mounted es = Some d"
  shows "(opt_prop (Some u) ''role'' \<noteq> Some (JStr ''admin'') \<longrightarrow>
            \<not> isAdmin u \<and> \<not> showCreateOrgModal d \<and> CreateOrganization \<notin> set (controls u d)) \<and>
         (opt_prop (Some u) ''role'' = Some (JStr ''viewer'') \<longrightarrow>
            \<not> showCreateUserModal d \<and> \<not> showUserManagementModal d \<and>
            (\<forall>org. AddUser org \<notin> set (controls u d) \<and> ManageUsers org \<notin> set (controls u d)))"
proof -
  have inv: "modals_gated u d"
    using mounted_gated assms by (rule run_keeps_gated)
  have a: "\<not> isAdmin u \<Longrightarrow> \<not> showCreateOrgModal d \<and> CreateOrganization \<notin> set (controls u d)"
    using inv controls_not_admin by (simp add: modals_gated_def)
  have v: "opt_prop (Some u) ''role'' = Some (JStr ''viewer'') \<Longrightarrow> \<not> isAdmin u \<and> \<not> isEditor u"
    by (simp add: isAdmin_def isEditor_def)
  have b: "\<not> isAdmin u \<Longrightarrow> \<not> isEditor u \<Longrightarrow>
      \<not> showCreateUserModal d \<and> \<not> showUserManagementModal d \<and> controls u d = []"
    using inv controls_viewer by (simp add: modals_gated_def)
  show ?thesis using a b v by (auto simp: isAdmin_def)
qed

text \<open>
  The theorem for a viewer, after the organizations were loaded, a create-user success
  callback and a second load: nothing is open and no button is there.
\<close>

theorem dashboard_gating_witness:
  "dashboard_run (sample_user ''viewer'') Dashboard_mounted
        [OrgsAnswered (Resolved sample_orgs), CreateUserSucceeded, OrgsAnswered (Resolved sample_orgs)]
      = Some (Dashboard_init\<lparr>orgs := JArr [JObj [(''org_id'', JStr ''acme''), (''name'', JStr ''ACME'')]],
                db_loading := False\<rparr>) \<and>
   opt_prop (Some (sample_user ''viewer'')) ''role'' = Some (JStr ''viewer'') \<and>
   \<not> isAdmin (sample_user ''viewer'') \<and>
   controls (sample_user ''viewer'')
     (Dashboard_init\<lparr>orgs := JArr [JObj [(''org_id'', JStr ''acme''), (''name'', JStr ''ACME'')]],
                db_loading := False\<rparr>) = []"
proof -
  have run: "dashboard_run (sample_user ''viewer'') Dashboard_mounted
        [OrgsAnswered (Resolved sample_orgs), CreateUserSucceeded, OrgsAnswered (Resolved sample_orgs)]
      = Some (Dashboard_init\<lparr>orgs := JArr [JObj [(''org_id'', JStr ''acme''), (''name'', JStr ''ACME'')]],
                db_loading := False\<rparr>)"
    by (simp add: Dashboard_mounted_def Dashboard_init_def fetchOrgs_begin_def fetchOrgs_settle_def
        sample_orgs_def handleCreateUserSuccess_def)
  have role: "opt_prop (Some (sample_user ''viewer'')) ''role'' = Some (JStr ''viewer'')"
    by (simp add: sample_user_def)
  from dashboard_gating [OF run] role run show ?thesis
    by (simp add: controls_def org_controls_def isAdmin_def isEditor_def)
qed

section \<open>The Authorization header\<close>

lemma outbound_authorization:
  "outbound_headers w c ''Authorization'' = axios_common w ''Authorization''"
  by (cases c) (simp_all add: outbound_headers_def map_add_def)

lemma setToken_authorization:
  "axios_common (setToken token w) ''Authorization'' =
     Some (case token of None \<Rightarrow> [] | Some t \<Rightarrow> if t \<noteq> [] then ''Bearer '' @ t else [])"
  by (simp add: setToken_def)

text \<open>
  C4, as the code has it. For every outbound request: once a non-empty token \<open>t\<close> is set
  (by \<open>setToken\<close>, as \<open>restore\<close> and \<open>handleLoginSuccess\<close> do from a stored session), the
  request carries \<open>Authorization: Bearer t\<close>; before any token was set, no Authorization
  header is attached; after \<open>setToken(null)\<close>, and so after logout, the Authorization
  header is attached with the empty string as its value.
\<close>

theorem authorization_by_session:
  "(t \<noteq> [] \<longrightarrow>
      outbound_headers (setToken (Some t) w) c ''Authorization'' = Some (''Bearer '' @ t)) \<and>
   (getItem w ''token'' = Some t \<and> t \<noteq> [] \<and> getItem w ''user'' = Some s \<and> s \<noteq> [] \<and>
    parse s = Inr u \<longrightarrow>
      outbound_headers (final (restore parse w)) c ''Authorization'' = Some (''Bearer '' @ t) \<and>
      outbound_headers (final (handleLoginSuccess parse w)) c ''Authorization''
        = Some (''Bearer '' @ t)) \<and>
   outbound_headers (app_start kept) c ''Authorization'' = None \<and>
   outbound_headers (setToken None w) c ''Authorization'' = Some [] \<and>
   outbound_headers (handleLogout w) c ''Authorization'' = Some []"
  by (simp add: outbound_authorization setToken_authorization handleLogout_def app_start_def
        restore_def handleLoginSuccess_def Let_def)

text \<open>The theorem for the token \<open>T\<close>, set directly and restored from storage.\<close>

theorem authorization_by_session_witness:
  "outbound_headers (setToken (Some ''T'') (app_start Map.empty)) (ListUsers (Some (JStr ''acme'')))
      ''Authorization'' = Some ''Bearer T'' \<and>
   outbound_headers
     (final (restore JSON_parse_sample (app_start [''user'' \<mapsto> ''{}'', ''token'' \<mapsto> ''T''])))
     (ListUsers (Some (JStr ''acme''))) ''Authorization'' = Some ''Bearer T''"
  using authorization_by_session [where t = "''T''" and w = "app_start Map.empty"
                  and c = "ListUsers (Some (JStr ''acme''))"]
        authorization_by_session [where w = "app_start [''user'' \<mapsto> ''{}'', ''token'' \<mapsto> ''T'']"
                  and t = "''T''" and s = "''{}''" and parse = JSON_parse_sample
                  and u = "JObj []" and c = "ListUsers (Some (JStr ''acme''))"]
  by (simp add: app_start_def getItem_def JSON_parse_sample_def)

text \<open>
  C4 as stated fails after a logout: no session exists, and the request still has an
  Authorization header, holding the empty string.
\<close>

theorem authorization_after_logout:
  "outbound_headers (handleLogout (app_start Map.empty)) ListOrgs ''Authorization'' = Some []"
  by (simp add: outbound_authorization handleLogout_def setToken_authorization)

section \<open>Logging out\<close>

lemma handleLogout_twice: "handleLogout (handleLogout w) = handleLogout w"
  by (simp add: handleLogout_def setToken_def removeItem_def)

lemma restore_after_logout:
  "restore parse (handleLogout w) =
     \<lparr>final = (handleLogout w)\<lparr>app_loading := False\<rparr>, requests = [], notified = [], raised = None\<rparr>"
  by (simp add: restore_def handleLogout_def setToken_def removeItem_def getItem_def)

text \<open>
  C5. \<open>handleLogout\<close> removes the persisted user and token and unsets the user in memory;
  a second logout changes nothing; the navigation bar's handler has the same effect; and
  \<open>restore\<close> after a logout, in the same page or in a fresh one over the same storage,
  yields the logged-out state, raises nothing and leaves storage cleared.
\<close>

theorem logout_clears_idempotent:
  "getItem (handleLogout w) ''user'' = None \<and>
   getItem (handleLogout w) ''token'' = None \<and>
   user (handleLogout w) = JNull \<and>
   handleLogout (handleLogout w) = handleLogout w \<and>
   Navigation_handleLogout w = handleLogout w \<and>
   logged_out (final (restore parse (handleLogout w))) \<and>
   raised (restore parse (handleLogout w)) = None \<and>
   storage (final (restore parse (handleLogout w))) = storage (handleLogout w) \<and>
   logged_out (final (restore parse (app_start (storage (handleLogout w)))))"
proof -
  have "getItem (handleLogout w) ''user'' = None" "getItem (handleLogout w) ''token'' = None"
       "user (handleLogout w) = JNull"
    by (simp_all add: handleLogout_def setToken_def removeItem_def getItem_def)
  moreover have "Navigation_handleLogout w = handleLogout w"
    by (simp add: Navigation_handleLogout_def handleLogout_def setToken_def removeItem_def)
  moreover have "logged_out (final (restore parse (handleLogout w)))"
    by (simp add: restore_after_logout logged_out_def)
       (simp add: handleLogout_def setToken_def removeItem_def)
  moreover have "logged_out (final (restore parse (app_start (storage (handleLogout w)))))"
    by (simp add: restore_def app_start_def logged_out_def getItem_def handleLogout_def
          setToken_def removeItem_def)
  ultimately show ?thesis
    by (simp add: handleLogout_twice restore_after_logout)
qed

text \<open>The theorem for a stored session.\<close>

theorem logout_clears_idempotent_witness:
  "handleLogout (handleLogout (app_start [''user'' \<mapsto> ''{}'', ''token'' \<mapsto> ''T''])) =
     handleLogout (app_start [''user'' \<mapsto> ''{}'', ''token'' \<mapsto> ''T'']) \<and>
   getItem (handleLogout (app_start [''user'' \<mapsto> ''{}'', ''token'' \<mapsto> ''T''])) ''token'' = None \<and>
   logged_out (final (restore JSON_parse_sample
      (handleLogout (app_start [''user'' \<mapsto> ''{}'', ''token'' \<mapsto> ''T'']))))"
  using logout_clears_idempotent
    [of "app_start [''user'' \<mapsto> ''{}'', ''token'' \<mapsto> ''T'']" JSON_parse_sample]
  by simp

section \<open>Client-side validation of the create forms\<close>

lemma dropWhile_all_iff: "(\<forall>x\<in>set (dropWhile P s). P x) \<longleftrightarrow> (\<forall>x\<in>set s. P x)"
proof
  assume a: "\<forall>x\<in>set (dropWhile P s). P x"
  have "dropWhile P s = []"
  proof (rule ccontr)
    assume ne: "dropWhile P s \<noteq> []"
    then have "\<not> P (hd (dropWhile P s))" by (rule hd_dropWhile)
    moreover from ne have "hd (dropWhile P s) \<in> set (dropWhile P s)" by (rule hd_in_set)
    ultimately show False using a by blast
  qed
  then show "\<forall>x\<in>set s. P x" by (simp add: dropWhile_eq_Nil_conv)
next
  assume "\<forall>x\<in>set s. P x"
  then show "\<forall>x\<in>set (dropWhile P s). P x" by (blast dest: set_dropWhileD)
qed

lemma trim_empty_iff: "trim s = [] \<longleftrightarrow> blank s"
proof -
  have "trim s = [] \<longleftrightarrow> dropWhile is_white_space (rev (dropWhile is_white_space s)) = []"
    by (simp add: trim_def)
  also have "\<dots> \<longleftrightarrow> (\<forall>x\<in>set (dropWhile is_white_space s). is_white_space x)"
    by (simp add: dropWhile_eq_Nil_conv)
  also have "\<dots> \<longleftrightarrow> (\<forall>x\<in>set s. is_white_space x)"
    by (rule dropWhile_all_iff)
  finally show ?thesis by (simp add: blank_def list_all_iff)
qed

text \<open>A filled-in form does issue the request, with the fields as typed.\<close>

lemma org_submit_accepted:
  "requests (CreateOrgModal_handleSubmit (Resolved JNull)
      (sample_org_form\<lparr>orgId := [0x61, 0x63, 0x6D, 0x65]\<rparr>)) =
     [CreateOrg [0x61, 0x63, 0x6D, 0x65] [0x41, 0x43, 0x4D, 0x45]]"
  by (simp add: CreateOrgModal_handleSubmit_def sample_org_form_def trim_def is_white_space_def)

text \<open>
  C6. Whenever the organization id or the organization name is empty or white space
  only, \<open>handleSubmit\<close> of the create-organization form issues no request, calls neither
  \<open>onSuccess\<close> nor \<open>onClose\<close>, raises nothing, shows exactly the message
  \<open>Organization ID and Name are required\<close>, and leaves both fields as typed.
\<close>

theorem createOrg_blank_rejected:
  "blank (orgId f) \<or> blank (orgName f) \<Longrightarrow>
     requests (CreateOrgModal_handleSubmit outcome f) = [] \<and>
     notified (CreateOrgModal_handleSubmit outcome f) = [] \<and>
     raised (CreateOrgModal_handleSubmit outcome f) = None \<and>
     org_error (final (CreateOrgModal_handleSubmit outcome f)) =
       Message ''Organization ID and Name are required'' \<and>
     orgId (final (CreateOrgModal_handleSubmit outcome f)) = orgId f \<and>
     orgName (final (CreateOrgModal_handleSubmit outcome f)) = orgName f \<and>
     \<not> org_loading (final (CreateOrgModal_handleSubmit outcome f))"
  by (auto simp: CreateOrgModal_handleSubmit_def Let_def trim_empty_iff)

text \<open>
  The theorem for an organization id made of a space, an em space and a tab.
\<close>

theorem createOrg_blank_rejected_witness:
  "blank (orgId sample_org_form) \<and>
   requests (CreateOrgModal_handleSubmit (Resolved JNull) sample_org_form) = [] \<and>
   org_error (final (CreateOrgModal_handleSubmit (Resolved JNull) sample_org_form)) =
       Message ''Organization ID and Name are required''"
proof -
  have b: "blank (orgId sample_org_form)"
    by (simp add: blank_def sample_org_form_def is_white_space_def)
  from createOrg_blank_rejected [of sample_org_form "Resolved JNull"] b show ?thesis by simp
qed

section \<open>Deleting a user\<close>

lemma other_user_fun: "other_user name = (\<lambda>u. username_of u \<noteq> Some (JStr name))"
  by (rule ext) (simp add: other_user_def)

text \<open>
  Whatever the state is when the answer comes, the list the handler writes is the one of
  the render whose button was pressed, without the rows of that user.
\<close>

lemma deleteUser_settle_from_captured:
  assumes "JNull \<notin> set xs"
  shows "final (handleDeleteUser_settle (JArr xs) org name (Resolved d) m) =
           m\<lparr>users := JArr (filter (other_user name) xs), deleting := None\<rparr>"
  using assms by (simp add: handleDeleteUser_settle_def users_without_def other_user_fun)

text \<open>
  So with two deletions in flight in one instance, the second answer filters the list
  from before the first answer: the row the first answer removed is back.
\<close>

lemma overlapping_deletions_bring_row_back:
  "users (final
     (handleDeleteUser_settle (users sample_table) (Some (JStr ''acme'')) ''carol'' (Resolved JNull)
       (final
         (handleDeleteUser_settle (users sample_table) (Some (JStr ''acme'')) ''bob'' (Resolved JNull)
           (handleDeleteUser_begin ''carol'' (handleDeleteUser_begin ''bob'' sample_table))))))
   = JArr [sample_row ''alice'' ''admin'', sample_row ''bob'' ''viewer'']"
  by (simp add: handleDeleteUser_settle_def handleDeleteUser_begin_def users_without_def
        sample_table_def sample_row_def username_of_def)

text \<open>
  In the page, the answer to an accepted deletion leaves no user table on screen at all:
  \<open>onUserDeleted\<close> has set the dashboard's \<open>loading\<close>, and the modal with the filtered
  list is unmounted.
\<close>

lemma accepted_deletion_unmounts:
  assumes "JNull \<notin> set xs"
  shows "modal (answer (ReqDelete g (JArr xs) org name) (Resolved d) p) = None"
    and "displayed_users (answer (ReqDelete g (JArr xs) org name) (Resolved d) p) = None"
    and "db_loading (dash (answer (ReqDelete g (JArr xs) org name) (Resolved d) p))"
  using assms
  by (simp_all add: handleDeleteUser_settle_def users_without_def Let_def rerender_def
        fetchOrgs_begin_def displayed_users_def)

lemmas page_defs = Page_start_def Dashboard_mounted_def Dashboard_init_def fetchOrgs_begin_def
  fetchOrgs_settle_def sample_orgs_def sample_user_def controls_def isAdmin_def isEditor_def
  org_controls_def handleUserManagementClick_def rerender_def users_effect_def
  UserManagementModal_init_def fetchUsers_begin_def fetchUsers_settle_def on_instance_def
  sample_users_def sample_table_def sample_row_def displayed_users_def press_delete_def
  username_of_def handleDeleteUser_begin_def handleDeleteUser_settle_def users_without_def
  detail_or_def open_table_def delete_bob_def

text \<open>
  C7 does not hold of the code. The admin's user table of acme shows alice, bob and
  carol; bob is deleted, confirmed and accepted. The handler does write the list without
  bob, but right after the answer no user table is on screen; and when the organizations
  have loaded again and the remounted modal's own \<open>listUsers\<close> request is rejected, the
  table on screen is empty: alice and carol are gone from it too.
\<close>

theorem deleteUser_display_not_kept:
  "map_option displayed_users (page_run (sample_user ''admin'') Page_start open_table)
     = Some (Some [sample_row ''alice'' ''admin'', sample_row ''bob'' ''viewer'',
                    sample_row ''carol'' ''editor'']) \<and>
   map_option displayed_users (page_run (sample_user ''admin'') Page_start delete_bob)
     = Some None \<and>
   map_option displayed_users (page_run (sample_user ''admin'') Page_start
       (delete_bob @ [Answered 0 (Resolved sample_orgs), Answered 0 (Rejected None)]))
     = Some (Some [])"
  by (simp add: page_defs)

text \<open>
  C8. When the user declines the confirmation, \<open>handleDeleteUser\<close> changes nothing and
  issues no request. When the delete request is rejected, the user list is unchanged and
  \<open>onUserDeleted\<close> is not called. And the list differs from the old one only when the
  deletion was confirmed and the request, which was then issued, succeeded.
\<close>

theorem deleteUser_failure_keeps_list:
  "(\<not> confirmed \<longrightarrow>
      handleDeleteUser org name confirmed outcome m =
        \<lparr>final = m, requests = [], notified = [], raised = None\<rparr>) \<and>
   (outcome = Rejected e \<longrightarrow>
      users (final (handleDeleteUser org name confirmed outcome m)) = users m \<and>
      notified (handleDeleteUser org name confirmed outcome m) = []) \<and>
   (users (final (handleDeleteUser org name confirmed outcome m)) \<noteq> users m \<longrightarrow>
      confirmed \<and> (\<exists>d. outcome = Resolved d) \<and>
      requests (handleDeleteUser org name confirmed outcome m) = [DeleteUser org name])"
  by (auto simp: handleDeleteUser_def handleDeleteUser_settle_def handleDeleteUser_begin_def
        split: api_outcome.splits sum.splits)

text \<open>The theorem for a rejected and for a declined deletion of bob.\<close>

theorem deleteUser_failure_keeps_list_witness:
  "users (final (handleDeleteUser (Some (JStr ''acme'')) ''bob'' True (Rejected None) sample_table)) =
     users sample_table \<and>
   um_error (final (handleDeleteUser (Some (JStr ''acme'')) ''bob'' True (Rejected None) sample_table)) =
     Message ''Failed to delete user'' \<and>
   handleDeleteUser (Some (JStr ''acme'')) ''bob'' False (Resolved JNull) sample_table =
     \<lparr>final = sample_table, requests = [], notified = [], raised = None\<rparr>"
  using deleteUser_failure_keeps_list
      [of True "Some (JStr ''acme'')" "''bob''" "Rejected None" sample_table None]
    deleteUser_failure_keeps_list
      [of False "Some (JStr ''acme'')" "''bob''" "Resolved JNull" sample_table None]
  by (simp add: handleDeleteUser_def handleDeleteUser_settle_def handleDeleteUser_begin_def
        detail_or_def)

section \<open>Loading the lists\<close>




section \<open>Resetting the create-user form\<close>

text \<open>
  C10. When the username or the password is blank, or the \<open>createUser\<close> request is
  rejected, \<open>handleSubmit\<close> of the create-user form leaves username, password and role as
  they were. When both are filled in and the request succeeds, the request carries the
  fields as typed, and afterwards username and password are empty and the role is
  \<open>viewer\<close>.
\<close>

theorem createUser_reset_only_on_success:
  "(blank (username f) \<or> blank (password f) \<or> outcome = Rejected e \<longrightarrow>
      username (final (CreateUserModal_handleSubmit org outcome f)) = username f \<and>
      password (final (CreateUserModal_handleSubmit org outcome f)) = password f \<and>
      role (final (CreateUserModal_handleSubmit org outcome f)) = role f) \<and>
   (\<not> blank (username f) \<and> \<not> blank (password f) \<and> outcome = Resolved d \<longrightarrow>
      username (final (CreateUserModal_handleSubmit org outcome f)) = [] \<and>
      password (final (CreateUserModal_handleSubmit org outcome f)) = [] \<and>
      role (final (CreateUserModal_handleSubmit org outcome f)) = ''viewer'' \<and>
      requests (CreateUserModal_handleSubmit org outcome f) =
        [CreateUser org (username f) (password f) (role f)])"
  by (auto simp: CreateUserModal_handleSubmit_def Let_def trim_empty_iff split: sum.splits)

text \<open>The theorem for a filled-in form, once rejected and once accepted.\<close>

theorem createUser_reset_only_on_success_witness:
  "role (final (CreateUserModal_handleSubmit (Some (JStr ''acme'')) (Rejected None) sample_user_form))
     = ''editor'' \<and>
   username (final (CreateUserModal_handleSubmit (Some (JStr ''acme'')) (Rejected None) sample_user_form))
     = [0x62, 0x6F, 0x62] \<and>
   \<not> blank (username sample_user_form) \<and> \<not> blank (password sample_user_form) \<and>
   role (final (CreateUserModal_handleSubmit (Some (JStr ''acme'')) (Resolved JNull) sample_user_form))
     = ''viewer'' \<and>
   username (final (CreateUserModal_handleSubmit (Some (JStr ''acme'')) (Resolved JNull) sample_user_form))
     = []"
proof -
  have nb: "\<not> blank (username sample_user_form)" "\<not> blank (password sample_user_form)"
    by (simp_all add: blank_def sample_user_form_def is_white_space_def)
  from nb
    createUser_reset_only_on_success
      [of sample_user_form "Rejected None" None "Some (JStr ''acme'')" JNull]
    createUser_reset_only_on_success
      [of sample_user_form "Resolved JNull" None "Some (JStr ''acme'')" JNull]
  show ?thesis by (simp add: sample_user_form_def)
qed

end
